theory Spec2Isabelle
  imports Main
begin

section \<open>Strings, class lists and exceptions\<close>

text \<open>
  The script \<^verbatim>\<open>docs/assets/sidebar.js\<close> is event-driven glue over the page: every handler
  reads and writes a few elements of the document. The model keeps exactly the parts of the
  document the handlers touch, as records. A handler is a function from the page to the
  page after it; where the handler can throw, the result is a sum whose left part holds the
  exception.

  A JavaScript string is a sequence of code units. A \<^typ>\<open>char\<close> stands for one code unit
  below 256, so \<^typ>\<open>string\<close> covers the strings made of such code units.
\<close>

datatype js_error = TypeError | SyntaxError | ReferenceError | QueryParseError

text \<open>
  A \<^verbatim>\<open>classList\<close> is an ordered set of tokens: \<^verbatim>\<open>add\<close> appends a token that is not there yet,
  \<^verbatim>\<open>remove\<close> deletes it, \<^verbatim>\<open>contains\<close> tests membership.
\<close>

type_synonym classList = "string list"

definition classList_contains :: "classList \<Rightarrow> string \<Rightarrow> bool" where
  "classList_contains cl c = (c \<in> set cl)"

definition classList_add :: "classList \<Rightarrow> string \<Rightarrow> classList" where
  "classList_add cl c = (if c \<in> set cl then cl else cl @ [c])"

definition classList_remove :: "classList \<Rightarrow> string \<Rightarrow> classList" where
  "classList_remove cl c = filter (\<lambda>x. x \<noteq> c) cl"

text \<open>Conversion of a possibly \<^verbatim>\<open>undefined\<close> value to a string, as \<^verbatim>\<open>setItem\<close> and template
  literals do.\<close>

definition to_js_string :: "string option \<Rightarrow> string" where
  "to_js_string v = (case v of None \<Rightarrow> ''undefined'' | Some s \<Rightarrow> s)"

section \<open>Sidebar tabs\<close>

definition STORAGE_KEY :: string where
  "STORAGE_KEY = ''memex-sidebar-tab''"

text \<open>
  A tab button: its class list and its \<^verbatim>\<open>data-tab\<close> attribute (\<^verbatim>\<open>dataset.tab\<close>, which is
  \<^verbatim>\<open>undefined\<close> on a button without the attribute).
\<close>

record nav_tab =
  tab_classes :: classList
  data_tab :: "string option"

text \<open>
  What \<^verbatim>\<open>document.querySelector\<close> can return to \<^verbatim>\<open>switchTab\<close>: \<^verbatim>\<open>null\<close>, one of the tab buttons
  (by its position in document order), or an element that is not a tab button.
\<close>

datatype selected = NoElement | TabButton nat | OtherElement

text \<open>
  The part of the page the tab controller works on. \<open>tabs\<close> is the result of
  \<^verbatim>\<open>querySelectorAll('.nav-tab')\<close>, in document order. A content region is given by its
  \<^verbatim>\<open>style.display\<close>, \<open>None\<close> when the element is not in the page. \<open>setItem_log\<close> records
  every call of \<^verbatim>\<open>localStorage.setItem\<close>, in order. \<open>tab_handlers\<close> tells whether the click
  handlers have been added. \<open>selector_engine\<close> is the browser's answer to a selector that
  \<^verbatim>\<open>switchTab\<close> builds from a name with a quote, a backslash, a line break or a NUL in it (see
  below): an exception, or the element found.
\<close>

record tab_page =
  tabs :: "nav_tab list"
  treeSection :: "string option"
  recentSection :: "string option"
  localStorage :: "string \<rightharpoonup> string"
  setItem_log :: "(string \<times> string) list"
  tab_handlers :: bool
  selector_engine :: "string \<Rightarrow> js_error + selected"

definition setItem :: "string \<Rightarrow> string \<Rightarrow> tab_page \<Rightarrow> tab_page" where
  "setItem k v p =
     p\<lparr>localStorage := (localStorage p)(k \<mapsto> v), setItem_log := setItem_log p @ [(k, v)]\<rparr>"

text \<open>
  \<^verbatim>\<open>document.querySelector(`.nav-tab[data-tab="${tabName}"]`)\<close>. The selector is built by
  interpolating the name between double quotes. For a name without a quote, a backslash, a
  line break or a NUL, the CSS parser reads the name back as the attribute value, and the
  call returns the first tab button with that attribute value (all elements of class
  \<^verbatim>\<open>nav-tab\<close> are in \<open>tabs\<close>), or \<^verbatim>\<open>null\<close>. For any other name the interpolated text is
  a different selector: a backslash starts an escape, a quote ends the attribute value and
  what follows is read as more selector text, a line break makes the selector invalid. What
  the call does then (throw, or return some element of the page) is decided by the
  browser's selector parser and the whole document; the model takes that answer from the
  page's \<open>selector_engine\<close> and assumes nothing about it.
\<close>

definition css_plain :: "string \<Rightarrow> bool" where
  "css_plain s = (\<forall>c \<in> set s. c \<notin> {CHR 0x22, CHR 0x5C, CHR 0x0A, CHR 0x0D, CHR 0x0C, CHR 0x00})"

fun first_index :: "('a \<Rightarrow> bool) \<Rightarrow> 'a list \<Rightarrow> nat option" where
  "first_index P [] = None"
| "first_index P (x # xs) =
     (if P x then Some 0 else map_option Suc (first_index P xs))"

definition querySelector_nav_tab ::
  "(string \<Rightarrow> js_error + selected) \<Rightarrow> nav_tab list \<Rightarrow> string \<Rightarrow> js_error + selected" where
  "querySelector_nav_tab engine ts name =
     (if css_plain name then
        Inr (case first_index (\<lambda>t. data_tab t = Some name) ts of
               None \<Rightarrow> NoElement
             | Some i \<Rightarrow> TabButton i)
      else engine name)"

definition tab_active :: "nav_tab \<Rightarrow> bool" where
  "tab_active t = classList_contains (tab_classes t) ''active''"

text \<open>
  \<^verbatim>\<open>switchTab(tabName)\<close>. An exception leaves the page as it is when it is thrown: the
  \<open>Inl\<close> result carries that page. When the element found is not a tab button, the marker
  goes to an element outside this part of the page.
\<close>

definition switchTab :: "string option \<Rightarrow> tab_page \<Rightarrow> js_error \<times> tab_page + tab_page" where
  "switchTab tabName p =
     (let ts = map (\<lambda>t. t\<lparr>tab_classes := classList_remove (tab_classes t) ''active''\<rparr>) (tabs p);
          p1 = p\<lparr>tabs := ts\<rparr>
      in case querySelector_nav_tab (selector_engine p) ts (to_js_string tabName) of
           Inl e \<Rightarrow> Inl (e, p1)
         | Inr activeTab \<Rightarrow>
             (let ts' = (case activeTab of
                           NoElement \<Rightarrow> ts
                         | TabButton i \<Rightarrow>
                             ts[i := (ts ! i)\<lparr>tab_classes :=
                                        classList_add (tab_classes (ts ! i)) ''active''\<rparr>]
                         | OtherElement \<Rightarrow> ts)
              in Inr (p1\<lparr>tabs := ts',
                        treeSection := map_option
                          (\<lambda>_. if tabName = Some ''tree'' then ''block'' else ''none'')
                          (treeSection p1),
                        recentSection := map_option
                          (\<lambda>_. if tabName = Some ''recent'' then ''block'' else ''none'')
                          (recentSection p1)\<rparr>)))"

text \<open>
  \<^verbatim>\<open>setupSidebarTabs()\<close>: nothing happens on a page without tab buttons or without one of the
  two regions. Otherwise the saved tab (or \<^verbatim>\<open>'tree'\<close> when \<^verbatim>\<open>getItem\<close> gives \<^verbatim>\<open>null\<close> or the
  empty string) is restored and the click handlers are added.
\<close>

definition setupSidebarTabs :: "tab_page \<Rightarrow> js_error \<times> tab_page + tab_page" where
  "setupSidebarTabs p =
     (if tabs p = [] \<or> treeSection p = None \<or> recentSection p = None then Inr p
      else
        (let savedTab = (case localStorage p STORAGE_KEY of
                           None \<Rightarrow> ''tree''
                         | Some v \<Rightarrow> if v = [] then ''tree'' else v)
         in case switchTab (Some savedTab) p of
              Inl ep \<Rightarrow> Inl ep
            | Inr p' \<Rightarrow> Inr (p'\<lparr>tab_handlers := True\<rparr>)))"

text \<open>
  The click handler of the \<open>i\<close>-th tab button: switch, then persist. An exception thrown by
  \<^verbatim>\<open>switchTab\<close> ends the handler before \<^verbatim>\<open>setItem\<close>.
\<close>

definition tab_click :: "nat \<Rightarrow> tab_page \<Rightarrow> tab_page" where
  "tab_click i p =
     (if \<not> tab_handlers p \<or> length (tabs p) \<le> i then p
      else
        (let tabName = data_tab (tabs p ! i)
         in case switchTab tabName p of
              Inl (e, p') \<Rightarrow> p'
            | Inr p' \<Rightarrow> setItem STORAGE_KEY (to_js_string tabName) p'))"

fun tab_clicks :: "nat list \<Rightarrow> tab_page \<Rightarrow> tab_page" where
  "tab_clicks [] p = p"
| "tab_clicks (i # is) p = tab_clicks is (tab_click i p)"

section \<open>Mobile menu and mobile search: the page\<close>

text \<open>
  A search hit as the index returns it. Only \<^verbatim>\<open>ref\<close>, the identifier of the document, is
  read by the script.
\<close>

record search_result =
  ref :: string

text \<open>
  The index library is not part of the script. An index is given by what its \<^verbatim>\<open>search\<close>
  method does: for a query, the ranked hits, or an exception.
\<close>

type_synonym lunr_index = "string \<Rightarrow> js_error + search_result list"

record meta =
  title :: string
  path :: string
  tags :: "string list option"

record document =
  doc_id :: string
  doc_title :: string
  doc_tags :: "string list"
  doc_content :: string

text \<open>
  The parsed body of \<^verbatim>\<open>search-index.json\<close>. The script expects the fields \<^verbatim>\<open>documents\<close> and
  \<^verbatim>\<open>metadata\<close>; either may be missing from the body (\<open>None\<close>). The request can also fail:
  \<open>FetchFailed\<close> stands for a network error, a status that is not a success and a body that
  does not parse to an object.
\<close>

record search_data =
  documents :: "document list option"
  metadata :: "(string \<rightharpoonup> meta) option"

datatype fetch_outcome = FetchFailed | FetchOk search_data

text \<open>
  The elements the two mobile controllers and the bottom navigation button work on. An
  element that carries marker classes is given by its class list, \<open>None\<close> when the page has
  no such element; \<open>searchInput\<close> is the input's \<^verbatim>\<open>value\<close>, \<open>searchResults\<close> the
  \<^verbatim>\<open>innerHTML\<close> of the results container. \<open>searchIndex\<close> and \<open>searchMetadata\<close> are the
  variables of the search controller's closure (\<open>None\<close> for \<^verbatim>\<open>null\<close>), and \<open>search_calls\<close>
  records the argument of every call of the index's \<^verbatim>\<open>search\<close>, in order.
\<close>

record mobile_page =
  menuBtn :: "classList option"
  sidebar :: "classList option"
  overlay :: "classList option"
  body :: classList
  searchBtn :: bool
  searchOverlay :: "classList option"
  searchClose :: bool
  searchInput :: "string option"
  searchResults :: "string option"
  bottomSearchBtn :: bool
  baseUrl :: string
  searchIndex :: "lunr_index option"
  searchMetadata :: "(string \<rightharpoonup> meta) option"
  search_calls :: "string list"

subsection \<open>Mobile menu\<close>

definition menu_ready :: "mobile_page \<Rightarrow> bool" where
  "menu_ready p = (menuBtn p \<noteq> None \<and> sidebar p \<noteq> None)"

definition sidebar_open :: "mobile_page \<Rightarrow> bool" where
  "sidebar_open p = (case sidebar p of None \<Rightarrow> False | Some cl \<Rightarrow> classList_contains cl ''open'')"

definition openMenu :: "mobile_page \<Rightarrow> mobile_page" where
  "openMenu p =
     p\<lparr>menuBtn := map_option (\<lambda>cl. classList_add cl ''active'') (menuBtn p),
       sidebar := map_option (\<lambda>cl. classList_add cl ''open'') (sidebar p),
       overlay := map_option (\<lambda>cl. classList_add cl ''active'') (overlay p),
       body := classList_add (body p) ''menu-open''\<rparr>"

definition closeMenu :: "mobile_page \<Rightarrow> mobile_page" where
  "closeMenu p =
     p\<lparr>menuBtn := map_option (\<lambda>cl. classList_remove cl ''active'') (menuBtn p),
       sidebar := map_option (\<lambda>cl. classList_remove cl ''open'') (sidebar p),
       overlay := map_option (\<lambda>cl. classList_remove cl ''active'') (overlay p),
       body := classList_remove (body p) ''menu-open''\<rparr>"

definition toggleMenu :: "mobile_page \<Rightarrow> mobile_page" where
  "toggleMenu p = (if sidebar_open p then closeMenu p else openMenu p)"

text \<open>The \<^verbatim>\<open>keydown\<close> listener added by \<^verbatim>\<open>setupMobileMenu\<close>.\<close>

definition menu_keydown :: "string \<Rightarrow> mobile_page \<Rightarrow> mobile_page" where
  "menu_keydown key p =
     (if \<not> menu_ready p then p
      else if key = ''Escape'' \<and> sidebar_open p then closeMenu p else p)"

text \<open>The callback of the resize timer, run with the window's width at that time.\<close>

definition menu_resize_timeout :: "nat \<Rightarrow> mobile_page \<Rightarrow> mobile_page" where
  "menu_resize_timeout innerWidth p =
     (if \<not> menu_ready p then p
      else if innerWidth > 768 \<and> sidebar_open p then closeMenu p else p)"

subsection \<open>Mobile search: overlay\<close>

definition search_ready :: "mobile_page \<Rightarrow> bool" where
  "search_ready p = (searchBtn p \<and> searchOverlay p \<noteq> None)"

definition search_input_ready :: "mobile_page \<Rightarrow> bool" where
  "search_input_ready p =
     (search_ready p \<and> searchInput p \<noteq> None \<and> searchResults p \<noteq> None)"

definition search_overlay_active :: "mobile_page \<Rightarrow> bool" where
  "search_overlay_active p =
     (case searchOverlay p of None \<Rightarrow> False | Some cl \<Rightarrow> classList_contains cl ''active'')"

definition openSearch :: "mobile_page \<Rightarrow> mobile_page" where
  "openSearch p =
     p\<lparr>searchOverlay := map_option (\<lambda>cl. classList_add cl ''active'') (searchOverlay p),
       body := classList_add (body p) ''menu-open''\<rparr>"

definition closeSearch :: "mobile_page \<Rightarrow> mobile_page" where
  "closeSearch p =
     p\<lparr>searchOverlay := map_option (\<lambda>cl. classList_remove cl ''active'') (searchOverlay p),
       body := classList_remove (body p) ''menu-open'',
       searchInput := map_option (\<lambda>_. []) (searchInput p),
       searchResults := map_option (\<lambda>_. []) (searchResults p)\<rparr>"

text \<open>The \<^verbatim>\<open>keydown\<close> listener added by \<^verbatim>\<open>setupMobileSearch\<close>.\<close>

definition search_keydown :: "string \<Rightarrow> mobile_page \<Rightarrow> mobile_page" where
  "search_keydown key p =
     (if \<not> search_ready p then p
      else if key = ''Escape'' \<and> search_overlay_active p then closeSearch p else p)"

text \<open>
  A key press on the document runs both listeners, in the order in which \<^verbatim>\<open>init\<close> added
  them: the menu's, then the search overlay's.
\<close>

definition keydown :: "string \<Rightarrow> mobile_page \<Rightarrow> mobile_page" where
  "keydown key p = search_keydown key (menu_keydown key p)"

subsection \<open>Mobile search: query and rendering\<close>

text \<open>
  \<^verbatim>\<open>String.prototype.trim\<close> removes white space and line terminators at both ends. Among
  the code units below 256 these are TAB, LF, VT, FF, CR, SPACE and NBSP.
\<close>

definition js_whitespace :: "char \<Rightarrow> bool" where
  "js_whitespace c =
     (c \<in> {CHR 0x09, CHR 0x0A, CHR 0x0B, CHR 0x0C, CHR 0x0D, CHR 0x20, CHR 0xA0})"

definition trim :: "string \<Rightarrow> string" where
  "trim s = rev (dropWhile js_whitespace (rev (dropWhile js_whitespace s)))"

text \<open>
  \<^verbatim>\<open>escapeHtml(text)\<close> stores the text as the text content of a fresh element and reads the
  element's markup back. The serialisation of a text node replaces \<^verbatim>\<open>&\<close>, \<^verbatim>\<open><\<close>, \<^verbatim>\<open>>\<close> and
  the no-break space by character references and leaves every other character alone.
\<close>

definition escape_char :: "char \<Rightarrow> string" where
  "escape_char c =
     (if c = CHR ''&'' then ''&amp;''
      else if c = CHR ''<'' then ''&lt;''
      else if c = CHR ''>'' then ''&gt;''
      else if c = CHR 0xA0 then ''&nbsp;''
      else [c])"

definition escapeHtml :: "string \<Rightarrow> string" where
  "escapeHtml text = concat (map escape_char text)"

text \<open>\<^verbatim>\<open>Array.prototype.join\<close> on an array of strings.\<close>

fun join :: "string \<Rightarrow> string list \<Rightarrow> string" where
  "join sep [] = []"
| "join sep [x] = x"
| "join sep (x # y # xs) = x @ sep @ join sep (y # xs)"

definition no_results_html :: string where
  \<open>no_results_html = ''<div class="search-result">No results found</div>''\<close>

definition tagsHtml :: "meta \<Rightarrow> string" where
  \<open>tagsHtml m =
     (case tags m of
        None \<Rightarrow> []
      | Some ts \<Rightarrow>
          if length ts > 0 then ''<div class="search-tags">'' @ join '', '' ts @ ''</div>''
          else [])\<close>

text \<open>
  \<^verbatim>\<open>searchMetadata[result.ref]\<close> reads a property of an object made by the JSON parser. The
  read finds the object's own entry for the identifier, if it has one; otherwise it goes on
  to the properties every such object inherits, and only then gives \<^verbatim>\<open>undefined\<close>. An
  inherited value is a function or the prototype object: it is truthy, and its \<^verbatim>\<open>tags\<close>,
  \<^verbatim>\<open>path\<close> and \<^verbatim>\<open>title\<close> are \<^verbatim>\<open>undefined\<close>.
\<close>

definition object_prototype_names :: "string list" where
  "object_prototype_names =
     [''constructor'', ''__defineGetter__'', ''__defineSetter__'', ''hasOwnProperty'',
      ''__lookupGetter__'', ''__lookupSetter__'', ''isPrototypeOf'', ''propertyIsEnumerable'',
      ''toString'', ''valueOf'', ''__proto__'', ''toLocaleString'']"

datatype property = Undefined | OwnValue meta | InheritedValue

definition js_lookup :: "(string \<rightharpoonup> meta) \<Rightarrow> string \<Rightarrow> property" where
  "js_lookup md k =
     (case md k of
        Some m \<Rightarrow> OwnValue m
      | None \<Rightarrow> if k \<in> set object_prototype_names then InheritedValue else Undefined)"

text \<open>
  The callback of \<^verbatim>\<open>map\<close> in the rendering of the hits. With an inherited value there is no
  tag line, the path is concatenated as the text \<^verbatim>\<open>undefined\<close>, and \<^verbatim>\<open>escapeHtml(undefined)\<close> is
  the empty string (a text content set to \<^verbatim>\<open>undefined\<close> is empty).
\<close>

definition render_result :: "string \<Rightarrow> (string \<rightharpoonup> meta) \<Rightarrow> search_result \<Rightarrow> string" where
  \<open>render_result base md result =
     (case js_lookup md (ref result) of
        Undefined \<Rightarrow> []
      | OwnValue m \<Rightarrow>
          ''<div class="search-result">'' @
          ''<a href="'' @ base @ ''/'' @ path m @ ''">'' @ escapeHtml (title m) @ ''</a>'' @
          tagsHtml m @
          ''</div>''
      | InheritedValue \<Rightarrow>
          ''<div class="search-result">'' @
          ''<a href="'' @ base @ ''/'' @ ''undefined'' @ ''">'' @ escapeHtml [] @ ''</a>'' @
          [] @
          ''</div>'')\<close>

text \<open>
  The \<^verbatim>\<open>try\<close> block: the hits, and the arguments of the calls of \<^verbatim>\<open>search\<close> that were made.
\<close>

definition run_search :: "lunr_index \<Rightarrow> string \<Rightarrow> search_result list \<times> string list" where
  "run_search idx query =
     (case idx query of
        Inl e \<Rightarrow> ([], [query])
      | Inr results \<Rightarrow>
          if length results = 0 then
            (case idx (query @ ''*'') of
               Inl e \<Rightarrow> ([], [query, query @ ''*''])
             | Inr results' \<Rightarrow> (results', [query, query @ ''*'']))
          else (results, [query]))"

text \<open>Assignment to \<^verbatim>\<open>searchResults.innerHTML\<close>.\<close>

definition set_innerHTML :: "string \<Rightarrow> mobile_page \<Rightarrow> js_error \<times> mobile_page + mobile_page" where
  "set_innerHTML html p =
     (case searchResults p of
        None \<Rightarrow> Inl (TypeError, p)
      | Some _ \<Rightarrow> Inr (p\<lparr>searchResults := Some html\<rparr>))"

definition performMobileSearch :: "mobile_page \<Rightarrow> js_error \<times> mobile_page + mobile_page" where
  "performMobileSearch p =
     (case searchInput p of
        None \<Rightarrow> Inl (TypeError, p)
      | Some v \<Rightarrow>
          (let query = trim v
           in if query = [] \<or> searchIndex p = None then set_innerHTML [] p
              else
                (case searchIndex p of
                   None \<Rightarrow> set_innerHTML [] p
                 | Some idx \<Rightarrow>
                     (let (results, calls) = run_search idx query;
                          p1 = p\<lparr>search_calls := search_calls p @ calls\<rparr>
                      in if length results = 0 then set_innerHTML no_results_html p1
                         else
                           (case searchMetadata p1 of
                              None \<Rightarrow> Inl (TypeError, p1)
                            | Some md \<Rightarrow>
                                set_innerHTML
                                  (concat (map (render_result (baseUrl p1) md) (take 15 results)))
                                  p1)))))"

subsection \<open>Mobile search: loading the index\<close>

text \<open>
  \<^verbatim>\<open>setupMobileSearch\<close> creates the closure's variables, both \<^verbatim>\<open>null\<close>.
\<close>

definition setupMobileSearch :: "mobile_page \<Rightarrow> mobile_page" where
  "setupMobileSearch p = p\<lparr>searchIndex := None, searchMetadata := None, search_calls := []\<rparr>"

text \<open>
  The index builder \<^verbatim>\<open>lunr\<close> belongs to the library and is a parameter: given the documents
  it returns an index or throws (it throws a \<^verbatim>\<open>ReferenceError\<close> on a page that has not loaded
  the library).
\<close>

type_synonym lunr_builder = "document list \<Rightarrow> js_error + lunr_index"

text \<open>
  The handler of a successful request. It assigns \<^verbatim>\<open>searchMetadata = data.metadata\<close> first
  (\<^verbatim>\<open>undefined\<close> when the payload has no such field), and then calls \<^verbatim>\<open>lunr\<close>. The call throws
  if the builder throws, and also if the payload has no \<^verbatim>\<open>documents\<close>, since the builder's
  callback calls \<^verbatim>\<open>data.documents.forEach\<close>. The exception goes to the \<^verbatim>\<open>catch\<close> handler of the
  promise, which logs it: \<^verbatim>\<open>searchIndex\<close> is then not assigned, and the metadata stays as
  assigned.
\<close>

definition index_loaded :: "lunr_builder \<Rightarrow> search_data \<Rightarrow> mobile_page \<Rightarrow> mobile_page" where
  "index_loaded lunr data p =
     (let p1 = p\<lparr>searchMetadata := metadata data\<rparr>
      in case documents data of
           None \<Rightarrow> p1
         | Some docs \<Rightarrow>
             (case lunr docs of
                Inl e \<Rightarrow> p1
              | Inr idx \<Rightarrow> p1\<lparr>searchIndex := Some idx\<rparr>))"

definition fetch_settled :: "lunr_builder \<Rightarrow> fetch_outcome \<Rightarrow> mobile_page \<Rightarrow> mobile_page" where
  "fetch_settled lunr outcome p =
     (if \<not> search_input_ready p then p
      else case outcome of FetchFailed \<Rightarrow> p | FetchOk data \<Rightarrow> index_loaded lunr data p)"

subsection \<open>Events\<close>

text \<open>
  What can happen to the page after \<^verbatim>\<open>init\<close>. A listener runs only if the setup routine that
  adds it found its elements. The timers are not modelled: their callbacks are events of
  their own, which over-approximates the order in which they run.
\<close>

datatype event =
    MenuBtnClick
  | OverlayClick
  | SidebarLinkTimeout
  | KeyDown string
  | ResizeTimeout nat
  | SearchBtnClick
  | SearchCloseClick
  | BottomNavClick
  | FetchSettled fetch_outcome
  | InputChanged string
  | SearchTimeout

definition search_timeout :: "mobile_page \<Rightarrow> mobile_page" where
  "search_timeout p =
     (if \<not> search_input_ready p then p
      else case performMobileSearch p of Inl (e, p') \<Rightarrow> p' | Inr p' \<Rightarrow> p')"

fun step :: "lunr_builder \<Rightarrow> event \<Rightarrow> mobile_page \<Rightarrow> mobile_page" where
  "step lunr MenuBtnClick p = (if menu_ready p then toggleMenu p else p)"
| "step lunr OverlayClick p = (if menu_ready p \<and> overlay p \<noteq> None then closeMenu p else p)"
| "step lunr SidebarLinkTimeout p = (if menu_ready p then closeMenu p else p)"
| "step lunr (KeyDown key) p = keydown key p"
| "step lunr (ResizeTimeout w) p = menu_resize_timeout w p"
| "step lunr SearchBtnClick p = (if search_ready p then openSearch p else p)"
| "step lunr SearchCloseClick p = (if search_ready p \<and> searchClose p then closeSearch p else p)"
| "step lunr BottomNavClick p =
     (if bottomSearchBtn p \<and> searchOverlay p \<noteq> None then openSearch p else p)"
| "step lunr (FetchSettled outcome) p = fetch_settled lunr outcome p"
| "step lunr (InputChanged v) p = p\<lparr>searchInput := map_option (\<lambda>_. v) (searchInput p)\<rparr>"
| "step lunr SearchTimeout p = search_timeout p"

fun run :: "lunr_builder \<Rightarrow> event list \<Rightarrow> mobile_page \<Rightarrow> mobile_page" where
  "run lunr [] p = p"
| "run lunr (e # es) p = run lunr es (step lunr e p)"

subsection \<open>A small page and a small index for the examples\<close>

text \<open>
  An index over titles: a query ending in \<^verbatim>\<open>*\<close> matches the titles it is a prefix of, any
  other query the titles equal to it, and a query with a colon is rejected as the library
  rejects a clause on an unknown field. \<open>demo_lunr\<close> is a builder that always returns such an
  index, \<open>missing_lunr\<close> the builder of a page without the library.
\<close>

definition demo_index :: "document list \<Rightarrow> lunr_index" where
  "demo_index docs q =
     (if CHR '':'' \<in> set q then Inl QueryParseError
      else if q \<noteq> [] \<and> last q = CHR ''*'' then
        Inr (map (\<lambda>d. \<lparr>ref = doc_id d\<rparr>)
               (filter (\<lambda>d. take (length (butlast q)) (doc_title d) = butlast q) docs))
      else Inr (map (\<lambda>d. \<lparr>ref = doc_id d\<rparr>) (filter (\<lambda>d. doc_title d = q) docs)))"

definition demo_lunr :: lunr_builder where
  "demo_lunr docs = Inr (demo_index docs)"

definition missing_lunr :: lunr_builder where
  "missing_lunr docs = Inl ReferenceError"

definition demo_meta :: meta where
  \<open>demo_meta =
     \<lparr>title = ''Memex <1> & co'', path = ''a.html'', tags = Some [''<b>x</b>'', ''y'']\<rparr>\<close>

definition demo_docs :: "document list" where
  \<open>demo_docs =
     [\<lparr>doc_id = ''stale'', doc_title = ''Memo'', doc_tags = [], doc_content = []\<rparr>,
      \<lparr>doc_id = ''a'', doc_title = ''Memex'', doc_tags = [''<b>x</b>'', ''y''],
       doc_content = []\<rparr>]\<close>

definition demo_metadata :: "string \<rightharpoonup> meta" where
  "demo_metadata = [''a'' \<mapsto> demo_meta]"

definition demo_data :: search_data where
  "demo_data = \<lparr>documents = Some demo_docs, metadata = Some demo_metadata\<rparr>"

text \<open>Two payloads with a field missing, and a payload whose index holds a document named
  \<^verbatim>\<open>constructor\<close> for which the metadata has no entry.\<close>

definition no_documents_data :: search_data where
  "no_documents_data = \<lparr>documents = None, metadata = Some demo_metadata\<rparr>"

definition no_metadata_data :: search_data where
  "no_metadata_data = \<lparr>documents = Some demo_docs, metadata = None\<rparr>"

definition stale_data :: search_data where
  "stale_data =
     \<lparr>documents =
        Some [\<lparr>doc_id = ''constructor'', doc_title = ''Constructor'', doc_tags = [],
               doc_content = []\<rparr>],
      metadata = Some Map.empty\<rparr>"

definition demo_page :: mobile_page where
  "demo_page =
     \<lparr>menuBtn = Some [''mobile-menu-btn''], sidebar = Some [''sidebar''],
      overlay = Some [''sidebar-overlay''], body = [],
      searchBtn = True, searchOverlay = Some [''search-overlay''], searchClose = True,
      searchInput = Some [], searchResults = Some [], bottomSearchBtn = True,
      baseUrl = ''/kb'', searchIndex = None, searchMetadata = None, search_calls = []\<rparr>"

text \<open>
  The markup the search handler renders for a list of hits: the message for no hit, and
  otherwise the rendering of the first fifteen.
\<close>

definition results_html :: "string \<Rightarrow> (string \<rightharpoonup> meta) \<Rightarrow> search_result list \<Rightarrow> string" where
  "results_html base md results =
     (if length results = 0 then no_results_html
      else concat (map (render_result base md) (take 15 results)))"

text \<open>The two variables of the search controller are both set or both unset.\<close>

definition index_and_metadata_together :: "mobile_page \<Rightarrow> bool" where
  "index_and_metadata_together p = ((searchIndex p = None) = (searchMetadata p = None))"


definition loaded_page :: mobile_page where
  "loaded_page = run demo_lunr [FetchSettled (FetchOk demo_data)] (setupMobileSearch demo_page)"

text \<open>A load that sets both variables: the payload has both fields and the builder returns
  an index. Every other event counts as such.\<close>

fun load_complete :: "lunr_builder \<Rightarrow> event \<Rightarrow> bool" where
  "load_complete lunr (FetchSettled (FetchOk d)) =
     (metadata d \<noteq> None \<and>
      (case documents d of None \<Rightarrow> False | Some docs \<Rightarrow> \<not> isl (lunr docs)))"
| "load_complete lunr e = True"

text \<open>The example page after the load of the payload with the stale metadata, a query for
  the title of its document, and the search.\<close>

definition stale_page :: mobile_page where
  "stale_page =
     run demo_lunr
       [FetchSettled (FetchOk stale_data), InputChanged ''Constructor'', SearchTimeout]
       (setupMobileSearch demo_page)"

subsection \<open>Small tab bars for the examples\<close>

text \<open>A page with both tab buttons, a page whose only tab button is the recent one, and a
  page with a third tab button. All their names are plain, so the selector engine of these
  pages is never asked.\<close>

definition two_tab_page :: tab_page where
  "two_tab_page =
     \<lparr>tabs = [\<lparr>tab_classes = [''nav-tab'', ''active''], data_tab = Some ''tree''\<rparr>,
              \<lparr>tab_classes = [''nav-tab''], data_tab = Some ''recent''\<rparr>],
      treeSection = Some [], recentSection = Some [],
      localStorage = Map.empty, setItem_log = [], tab_handlers = False,
      selector_engine = (\<lambda>name. Inl SyntaxError)\<rparr>"

definition recent_only_page :: tab_page where
  "recent_only_page =
     \<lparr>tabs = [\<lparr>tab_classes = [''nav-tab''], data_tab = Some ''recent''\<rparr>],
      treeSection = Some [], recentSection = Some [],
      localStorage = Map.empty, setItem_log = [], tab_handlers = False,
      selector_engine = (\<lambda>name. Inl SyntaxError)\<rparr>"

definition three_tab_page :: tab_page where
  "three_tab_page =
     \<lparr>tabs = [\<lparr>tab_classes = [''nav-tab''], data_tab = Some ''tree''\<rparr>,
              \<lparr>tab_classes = [''nav-tab''], data_tab = Some ''recent''\<rparr>,
              \<lparr>tab_classes = [''nav-tab''], data_tab = Some ''tags''\<rparr>],
      treeSection = Some [], recentSection = Some [],
      localStorage = Map.empty, setItem_log = [], tab_handlers = False,
      selector_engine = (\<lambda>name. Inl SyntaxError)\<rparr>"

text \<open>
  A page with a third tab button whose name holds a backslash, \<^verbatim>\<open>a\z\<close>, after its setup. The
  selector built from that name is valid: the backslash escapes the \<^verbatim>\<open>z\<close>, so the selector asks
  for the attribute value \<^verbatim>\<open>az\<close>, which no element has, and the call returns \<^verbatim>\<open>null\<close>.
\<close>

definition backslash_tab_page :: tab_page where
  "backslash_tab_page =
     \<lparr>tabs = [\<lparr>tab_classes = [''nav-tab'', ''active''], data_tab = Some ''tree''\<rparr>,
              \<lparr>tab_classes = [''nav-tab''], data_tab = Some ''recent''\<rparr>,
              \<lparr>tab_classes = [''nav-tab''], data_tab = Some [CHR ''a'', CHR 0x5C, CHR ''z'']\<rparr>],
      treeSection = Some ''block'', recentSection = Some ''none'',
      localStorage = Map.empty, setItem_log = [], tab_handlers = True,
      selector_engine = (\<lambda>name. Inr NoElement)\<rparr>"

text \<open>The entries a click can write: the preference key with the name of a tab button.\<close>

definition tab_names :: "tab_page \<Rightarrow> (string \<times> string) set" where
  "tab_names p = (\<lambda>t. (STORAGE_KEY, to_js_string (data_tab t))) ` set (tabs p)"

section \<open>Properties of the tab controller\<close>

lemma first_index_Some:
  "first_index P xs = Some i \<Longrightarrow> i < length xs \<and> P (xs ! i)"
  by (induction xs arbitrary: i) (auto split: if_splits)

lemma first_index_None: "(first_index P xs = None) = (\<forall>x \<in> set xs. \<not> P x)"
  by (induction xs) auto

lemma filter_update_single:
  "\<forall>x \<in> set xs. \<not> Q x \<Longrightarrow> i < length xs \<Longrightarrow> Q a \<Longrightarrow> filter Q (xs[i := a]) = [a]"
proof (induction xs arbitrary: i)
  case Nil
  then show ?case by simp
next
  case (Cons x xs)
  then show ?case by (cases i) auto
qed

lemma remove_active_inactive:
  "\<not> tab_active (t\<lparr>tab_classes := classList_remove (tab_classes t) ''active''\<rparr>)"
  by (simp add: tab_active_def classList_contains_def classList_remove_def)

lemma add_active_active:
  "tab_active (t\<lparr>tab_classes := classList_add (tab_classes t) ''active''\<rparr>)"
  by (simp add: tab_active_def classList_contains_def classList_add_def)

lemma css_plain_tree: "css_plain ''tree''"
  by (simp add: css_plain_def)

lemma css_plain_recent: "css_plain ''recent''"
  by (simp add: css_plain_def)

text \<open>
  C3, as the code has it. For \<open>X\<close> one of \<^verbatim>\<open>tree\<close> and \<^verbatim>\<open>recent\<close>, \<^verbatim>\<open>switchTab(X)\<close> returns
  normally; afterwards exactly one tab button carries the active marker if some tab button
  has \<^verbatim>\<open>data-tab\<close> equal to \<open>X\<close>, and none does otherwise (the guard \<^verbatim>\<open>if (activeTab)\<close>);
  the region of \<open>X\<close> has display \<^verbatim>\<open>block\<close> and the other region has display \<^verbatim>\<open>none\<close>, so
  exactly one region is visible. The two regions exist wherever \<^verbatim>\<open>switchTab\<close> can be called.
\<close>

theorem switchTab_active_and_visible:
  assumes X: "X = ''tree'' \<or> X = ''recent''"
    and tree: "treeSection p \<noteq> None" and recent: "recentSection p \<noteq> None"
  shows "\<exists>p'. switchTab (Some X) p = Inr p' \<and>
           length (filter tab_active (tabs p')) =
             (if \<exists>t \<in> set (tabs p). data_tab t = Some X then 1 else 0) \<and>
           treeSection p' = Some (if X = ''tree'' then ''block'' else ''none'') \<and>
           recentSection p' = Some (if X = ''recent'' then ''block'' else ''none'') \<and>
           (treeSection p' = Some ''block'') \<noteq> (recentSection p' = Some ''block'')"
proof -
  let ?ts = "map (\<lambda>t. t\<lparr>tab_classes := classList_remove (tab_classes t) ''active''\<rparr>) (tabs p)"
  let ?P = "\<lambda>t. data_tab t = Some X"
  have plain: "css_plain X" using X css_plain_tree css_plain_recent by auto
  have inactive: "\<forall>t \<in> set ?ts. \<not> tab_active t"
    by (auto simp: remove_active_inactive)
  have ex_iff: "(\<exists>t \<in> set ?ts. ?P t) = (\<exists>t \<in> set (tabs p). ?P t)"
    by auto
  obtain d1 d2 where d: "treeSection p = Some d1" "recentSection p = Some d2"
    using tree recent by auto
  show ?thesis
  proof (cases "first_index ?P ?ts")
    case None
    then have no: "\<not> (\<exists>t \<in> set (tabs p). ?P t)"
      using ex_iff by (simp add: first_index_None)
    have "filter tab_active ?ts = []" using inactive by (simp add: filter_empty_conv)
    with None no d X show ?thesis
      by (auto simp: switchTab_def querySelector_nav_tab_def to_js_string_def plain Let_def)
  next
    case (Some i)
    then have i: "i < length ?ts" "?P (?ts ! i)" using first_index_Some by blast+
    then have yes: "\<exists>t \<in> set (tabs p). ?P t"
      using ex_iff nth_mem by blast
    have "filter tab_active
            (?ts[i := (?ts ! i)\<lparr>tab_classes := classList_add (tab_classes (?ts ! i)) ''active''\<rparr>]) =
          [(?ts ! i)\<lparr>tab_classes := classList_add (tab_classes (?ts ! i)) ''active''\<rparr>]"
      using inactive i(1) add_active_active by (rule filter_update_single)
    with Some yes d X show ?thesis
      by (auto simp: switchTab_def querySelector_nav_tab_def to_js_string_def plain Let_def)
  qed
qed

text \<open>The theorem on the page with both buttons: switching to \<^verbatim>\<open>recent\<close> leaves one active
  button, hides the tree region and shows the recent region.\<close>

theorem switchTab_active_and_visible_witness:
  "\<exists>p'. switchTab (Some ''recent'') two_tab_page = Inr p' \<and>
        length (filter tab_active (tabs p')) = 1 \<and>
        treeSection p' = Some ''none'' \<and> recentSection p' = Some ''block''"
  using switchTab_active_and_visible [of "''recent''" two_tab_page]
  by (auto simp: two_tab_page_def)

text \<open>
  On the page whose only tab button is the recent one, \<^verbatim>\<open>switchTab('tree')\<close> (the call made
  on load with an empty storage) returns normally and leaves no active button at all.
\<close>

theorem switchTab_no_button_counterexample:
  "\<not> isl (switchTab (Some ''tree'') recent_only_page) \<and>
   length (filter tab_active (tabs (projr (switchTab (Some ''tree'') recent_only_page)))) = 0"
  by (simp add: switchTab_def recent_only_page_def querySelector_nav_tab_def css_plain_def
      to_js_string_def classList_remove_def tab_active_def classList_contains_def)

lemma data_tab_update:
  "map data_tab (ts[i := (ts ! i)\<lparr>tab_classes := c\<rparr>]) = map data_tab ts"
proof (cases "i < length ts")
  case True
  then show ?thesis by (simp add: map_update list_update_same_conv)
next
  case False
  then have "length ts \<le> i" by simp
  then show ?thesis by (simp add: list_update_beyond)
qed

lemma data_tab_deactivate:
  "map data_tab (map (\<lambda>t. t\<lparr>tab_classes := classList_remove (tab_classes t) ''active''\<rparr>) ts) =
   map data_tab ts"
  by (simp add: comp_def)


lemma data_tab_activate:
  "map data_tab
     (case sel of
        NoElement \<Rightarrow> ts
      | TabButton i \<Rightarrow>
          ts[i := (ts ! i)\<lparr>tab_classes := classList_add (tab_classes (ts ! i)) ''active''\<rparr>]
      | OtherElement \<Rightarrow> ts) =
   map data_tab ts"
  by (cases sel) (simp_all add: data_tab_update)

lemma switchTab_Inr_frame:
  assumes "switchTab n p = Inr p'"
  shows "setItem_log p' = setItem_log p \<and> localStorage p' = localStorage p \<and>
         tab_handlers p' = tab_handlers p \<and> map data_tab (tabs p') = map data_tab (tabs p) \<and>
         selector_engine p' = selector_engine p"
proof -
  let ?ts = "map (\<lambda>t. t\<lparr>tab_classes := classList_remove (tab_classes t) ''active''\<rparr>) (tabs p)"
  show ?thesis
  proof (cases "querySelector_nav_tab (selector_engine p) ?ts (to_js_string n)")
    case (Inl e)
    with assms show ?thesis by (simp add: switchTab_def Let_def)
  next
    case (Inr sel)
    with assms data_tab_activate [where sel = sel and ts = ?ts] data_tab_deactivate [of "tabs p"] show ?thesis
      by (auto simp: switchTab_def Let_def)
  qed
qed

lemma switchTab_Inl_frame:
  assumes "switchTab n p = Inl (e, p')"
  shows "setItem_log p' = setItem_log p \<and> localStorage p' = localStorage p \<and>
         tab_handlers p' = tab_handlers p \<and> map data_tab (tabs p') = map data_tab (tabs p) \<and>
         selector_engine p' = selector_engine p"
proof -
  let ?ts = "map (\<lambda>t. t\<lparr>tab_classes := classList_remove (tab_classes t) ''active''\<rparr>) (tabs p)"
  show ?thesis
  proof (cases "querySelector_nav_tab (selector_engine p) ?ts (to_js_string n)")
    case (Inl e')
    with assms show ?thesis by (auto simp: switchTab_def Let_def comp_def)
  next
    case (Inr sel)
    with assms show ?thesis by (simp add: switchTab_def Let_def)
  qed
qed

text \<open>\<^verbatim>\<open>switchTab\<close> returns normally exactly when \<^verbatim>\<open>querySelector\<close> does.\<close>

lemma switchTab_returns_iff:
  "(\<exists>q. switchTab n p = Inr q) =
   (css_plain (to_js_string n) \<or> \<not> isl (selector_engine p (to_js_string n)))"
  by (cases "selector_engine p (to_js_string n)")
    (simp_all add: switchTab_def querySelector_nav_tab_def Let_def)

lemma switchTab_throws_cases:
  "(\<exists>q. switchTab n p = Inr q) \<or> (\<exists>e q. switchTab n p = Inl (e, q))"
  by (cases "switchTab n p") auto

lemma switchTab_plain_returns:
  assumes "css_plain (to_js_string n)"
  shows "\<exists>p'. switchTab n p = Inr p' \<and>
           treeSection p' =
             map_option (\<lambda>_. if n = Some ''tree'' then ''block'' else ''none'') (treeSection p) \<and>
           recentSection p' =
             map_option (\<lambda>_. if n = Some ''recent'' then ''block'' else ''none'') (recentSection p)"
  using assms by (simp add: switchTab_def querySelector_nav_tab_def Let_def)

text \<open>
  C7. On a page where the tab controller finds its elements (at least one tab button and
  both regions) and the storage holds no value under the preference key,
  \<^verbatim>\<open>setupSidebarTabs\<close> returns normally with the tree region shown (display \<^verbatim>\<open>block\<close>) and the
  recent region hidden (display \<^verbatim>\<open>none\<close>): the default tab is \<^verbatim>\<open>tree\<close>.
\<close>

theorem setupSidebarTabs_default_tree:
  assumes "tabs p \<noteq> []" and "treeSection p \<noteq> None" and "recentSection p \<noteq> None"
    and "localStorage p STORAGE_KEY = None"
  shows "\<exists>p'. setupSidebarTabs p = Inr p' \<and>
           treeSection p' = Some ''block'' \<and> recentSection p' = Some ''none''"
proof -
  have "css_plain (to_js_string (Some ''tree''))"
    by (simp add: to_js_string_def css_plain_tree)
  then obtain q where q: "switchTab (Some ''tree'') p = Inr q"
      "treeSection q = map_option (\<lambda>_. ''block'') (treeSection p)"
      "recentSection q = map_option (\<lambda>_. ''none'') (recentSection p)"
    using switchTab_plain_returns [of "Some ''tree''" p] by auto
  with assms show ?thesis
    by (auto simp: setupSidebarTabs_def)
qed

text \<open>The theorem on the page with both buttons and an empty storage.\<close>

theorem setupSidebarTabs_default_tree_witness:
  "\<exists>p'. setupSidebarTabs two_tab_page = Inr p' \<and>
        treeSection p' = Some ''block'' \<and> recentSection p' = Some ''none''"
  using setupSidebarTabs_default_tree [of two_tab_page]
  by (auto simp: two_tab_page_def STORAGE_KEY_def)

lemma tab_click_frame:
  "tab_handlers (tab_click i p) = tab_handlers p \<and>
   map data_tab (tabs (tab_click i p)) = map data_tab (tabs p)"
proof (cases "switchTab (data_tab (tabs p ! i)) p")
  case (Inl ep)
  then obtain e q where "switchTab (data_tab (tabs p ! i)) p = Inl (e, q)" by (cases ep) auto
  then show ?thesis
    using switchTab_Inl_frame [of "data_tab (tabs p ! i)" p e q]
    by (simp add: tab_click_def Let_def)
next
  case (Inr q)
  then show ?thesis
    using switchTab_Inr_frame [of "data_tab (tabs p ! i)" p q]
    by (simp add: tab_click_def setItem_def Let_def)
qed

lemma tab_click_log:
  "setItem_log (tab_click i p) = setItem_log p \<or>
   (i < length (tabs p) \<and>
    setItem_log (tab_click i p) =
      setItem_log p @ [(STORAGE_KEY, to_js_string (data_tab (tabs p ! i)))])"
proof (cases "switchTab (data_tab (tabs p ! i)) p")
  case (Inl ep)
  then obtain e q where "switchTab (data_tab (tabs p ! i)) p = Inl (e, q)" by (cases ep) auto
  then show ?thesis
    using switchTab_Inl_frame [of "data_tab (tabs p ! i)" p e q]
    by (simp add: tab_click_def Let_def)
next
  case (Inr q)
  then show ?thesis
    using switchTab_Inr_frame [of "data_tab (tabs p ! i)" p q]
    by (simp add: tab_click_def setItem_def Let_def)
qed

lemma tab_names_cong:
  "map data_tab (tabs q) = map data_tab (tabs p) \<Longrightarrow> tab_names q = tab_names p"
proof -
  assume a: "map data_tab (tabs q) = map data_tab (tabs p)"
  have "tab_names q = (\<lambda>n. (STORAGE_KEY, to_js_string n)) ` set (map data_tab (tabs q))"
    by (auto simp: tab_names_def)
  also have "\<dots> = (\<lambda>n. (STORAGE_KEY, to_js_string n)) ` set (map data_tab (tabs p))"
    using a by simp
  also have "\<dots> = tab_names p" by (auto simp: tab_names_def)
  finally show ?thesis .
qed

lemma tab_click_log_subset:
  "set (setItem_log (tab_click i p)) \<subseteq> set (setItem_log p) \<union> tab_names p"
  using tab_click_log [of i p] by (auto simp: tab_names_def)

lemma tab_clicks_log_subset:
  "set (setItem_log (tab_clicks js p)) \<subseteq> set (setItem_log p) \<union> tab_names p"
proof (induction js arbitrary: p)
  case Nil
  then show ?case by simp
next
  case (Cons i js)
  have "tab_names (tab_click i p) = tab_names p"
    using tab_click_frame [of i p] by (intro tab_names_cong) simp
  with Cons.IH [of "tab_click i p"] tab_click_log_subset [of i p]
  show ?case by auto
qed

lemma tab_click_returned:
  assumes "tab_handlers p" and "i < length (tabs p)"
    and "switchTab (data_tab (tabs p ! i)) p = Inr q"
  shows "setItem_log (tab_click i p) =
           setItem_log p @ [(STORAGE_KEY, to_js_string (data_tab (tabs p ! i)))] \<and>
         localStorage (tab_click i p) STORAGE_KEY = Some (to_js_string (data_tab (tabs p ! i)))"
  using assms switchTab_Inr_frame [OF assms(3)]
  by (simp add: tab_click_def setItem_def Let_def)

lemma tab_click_threw:
  assumes "tab_handlers p" and "i < length (tabs p)"
    and "switchTab (data_tab (tabs p ! i)) p = Inl (e, q)"
  shows "setItem_log (tab_click i p) = setItem_log p \<and>
         localStorage (tab_click i p) = localStorage p"
  using assms switchTab_Inl_frame [OF assms(3)]
  by (simp add: tab_click_def Let_def)

lemma setupSidebarTabs_log:
  "(setupSidebarTabs p = Inr p' \<longrightarrow>
      setItem_log p' = setItem_log p \<and> map data_tab (tabs p') = map data_tab (tabs p)) \<and>
   (setupSidebarTabs p = Inl (e, p') \<longrightarrow>
      setItem_log p' = setItem_log p \<and> tab_handlers p' = tab_handlers p)"
proof (cases "tabs p = [] \<or> treeSection p = None \<or> recentSection p = None")
  case True
  then show ?thesis by (auto simp: setupSidebarTabs_def)
next
  case False
  let ?n = "Some (case localStorage p STORAGE_KEY of None \<Rightarrow> ''tree''
                  | Some v \<Rightarrow> if v = [] then ''tree'' else v)"
  show ?thesis
  proof (cases "switchTab ?n p")
    case (Inl ep)
    then obtain e' q where q: "switchTab ?n p = Inl (e', q)" by (cases ep) auto
    with False switchTab_Inl_frame [OF q] show ?thesis
      by (auto simp: setupSidebarTabs_def Let_def)
  next
    case (Inr q)
    with False switchTab_Inr_frame [OF Inr] show ?thesis
      by (auto simp: setupSidebarTabs_def Let_def)
  qed
qed

text \<open>
  C8, as the code has it. The setup routine writes nothing to the storage, whether it
  returns or throws. Every value written afterwards, by any sequence of clicks, is written
  under the preference key and is the \<^verbatim>\<open>data-tab\<close> name of a tab button of the page (as a
  string). On a click on a tab button, the write is made in the click handler itself, as
  soon as \<^verbatim>\<open>switchTab\<close> has returned: the log of writes grows by exactly the clicked button's
  name and the storage holds that name. If \<^verbatim>\<open>switchTab\<close> throws, the handler ends there and
  writes nothing; \<^verbatim>\<open>switchTab\<close> returns exactly when the name is a plain attribute value or the
  browser accepts the selector built from it. Hence on a page whose tab buttons are all
  named \<^verbatim>\<open>tree\<close> or \<^verbatim>\<open>recent\<close>, every click writes, and every value written is one of these two.
\<close>

theorem tab_click_writes_data_tab:
  "(\<forall>p'. setupSidebarTabs p = Inr p' \<longrightarrow>
      setItem_log p' = setItem_log p \<and> map data_tab (tabs p') = map data_tab (tabs p)) \<and>
   (\<forall>e p'. setupSidebarTabs p = Inl (e, p') \<longrightarrow>
      setItem_log p' = setItem_log p \<and> tab_handlers p' = tab_handlers p) \<and>
   set (setItem_log (tab_clicks js p)) \<subseteq> set (setItem_log p) \<union> tab_names p \<and>
   (tab_handlers p \<and> i < length (tabs p) \<longrightarrow>
      ((\<exists>q. switchTab (data_tab (tabs p ! i)) p = Inr q) =
         (css_plain (to_js_string (data_tab (tabs p ! i))) \<or>
          \<not> isl (selector_engine p (to_js_string (data_tab (tabs p ! i)))))) \<and>
      ((\<exists>q. switchTab (data_tab (tabs p ! i)) p = Inr q) \<longrightarrow>
         setItem_log (tab_click i p) =
           setItem_log p @ [(STORAGE_KEY, to_js_string (data_tab (tabs p ! i)))] \<and>
         localStorage (tab_click i p) STORAGE_KEY =
           Some (to_js_string (data_tab (tabs p ! i)))) \<and>
      (\<not> (\<exists>q. switchTab (data_tab (tabs p ! i)) p = Inr q) \<longrightarrow>
         setItem_log (tab_click i p) = setItem_log p \<and>
         localStorage (tab_click i p) = localStorage p)) \<and>
   ((\<forall>t \<in> set (tabs p). data_tab t = Some ''tree'' \<or> data_tab t = Some ''recent'') \<longrightarrow>
      (tab_handlers p \<and> i < length (tabs p) \<longrightarrow>
         setItem_log (tab_click i p) =
           setItem_log p @ [(STORAGE_KEY, to_js_string (data_tab (tabs p ! i)))]) \<and>
      (\<forall>kv \<in> set (setItem_log (tab_clicks js p)) - set (setItem_log p).
         fst kv = STORAGE_KEY \<and> (snd kv = ''tree'' \<or> snd kv = ''recent'')))"
proof -
  let ?n = "data_tab (tabs p ! i)"
  have on_load: "\<forall>p'. setupSidebarTabs p = Inr p' \<longrightarrow>
      setItem_log p' = setItem_log p \<and> map data_tab (tabs p') = map data_tab (tabs p)"
    using setupSidebarTabs_log by blast
  have on_load_threw: "\<forall>e p'. setupSidebarTabs p = Inl (e, p') \<longrightarrow>
      setItem_log p' = setItem_log p \<and> tab_handlers p' = tab_handlers p"
    using setupSidebarTabs_log by blast
  have subset: "set (setItem_log (tab_clicks js p)) \<subseteq> set (setItem_log p) \<union> tab_names p"
    by (rule tab_clicks_log_subset)
  have returns: "(\<exists>q. switchTab ?n p = Inr q) =
      (css_plain (to_js_string ?n) \<or> \<not> isl (selector_engine p (to_js_string ?n)))"
    by (rule switchTab_returns_iff)
  have returned: "setItem_log (tab_click i p) = setItem_log p @ [(STORAGE_KEY, to_js_string ?n)] \<and>
      localStorage (tab_click i p) STORAGE_KEY = Some (to_js_string ?n)"
    if "tab_handlers p \<and> i < length (tabs p)" and "\<exists>q. switchTab ?n p = Inr q"
    using that tab_click_returned by blast
  have threw: "setItem_log (tab_click i p) = setItem_log p \<and>
      localStorage (tab_click i p) = localStorage p"
    if "tab_handlers p \<and> i < length (tabs p)" and "\<not> (\<exists>q. switchTab ?n p = Inr q)"
  proof -
    from that(2) obtain e q where "switchTab ?n p = Inl (e, q)"
      using switchTab_throws_cases [of ?n p] by blast
    with that(1) show ?thesis using tab_click_threw by blast
  qed
  have two_names: "setItem_log (tab_click i p) = setItem_log p @ [(STORAGE_KEY, to_js_string ?n)]"
    if a: "\<forall>t \<in> set (tabs p). data_tab t = Some ''tree'' \<or> data_tab t = Some ''recent''"
      and b: "tab_handlers p \<and> i < length (tabs p)"
  proof -
    from a b have "?n = Some ''tree'' \<or> ?n = Some ''recent''" by simp
    then have "css_plain (to_js_string ?n)"
      using css_plain_tree css_plain_recent by (auto simp: to_js_string_def)
    with returns have "\<exists>q. switchTab ?n p = Inr q" by simp
    with b show ?thesis using returned by blast
  qed
  have two_values: "\<forall>kv \<in> set (setItem_log (tab_clicks js p)) - set (setItem_log p).
         fst kv = STORAGE_KEY \<and> (snd kv = ''tree'' \<or> snd kv = ''recent'')"
    if a: "\<forall>t \<in> set (tabs p). data_tab t = Some ''tree'' \<or> data_tab t = Some ''recent''"
  proof
    fix kv assume "kv \<in> set (setItem_log (tab_clicks js p)) - set (setItem_log p)"
    then have "kv \<in> tab_names p" using subset by auto
    then obtain t where "t \<in> set (tabs p)" "kv = (STORAGE_KEY, to_js_string (data_tab t))"
      by (auto simp: tab_names_def)
    with a show "fst kv = STORAGE_KEY \<and> (snd kv = ''tree'' \<or> snd kv = ''recent'')"
      by (auto simp: to_js_string_def)
  qed
  show ?thesis
    using on_load on_load_threw subset returns returned threw two_names two_values by blast
qed

text \<open>The theorem on the page with both buttons, after its setup: a click on the recent
  button, and a click on each button; and on the page with the button named \<^verbatim>\<open>a\z\<close>, where
  the selector is valid and the click writes the name as it is.\<close>

theorem tab_click_writes_data_tab_witness:
  "setItem_log (projr (setupSidebarTabs two_tab_page)) = [] \<and>
   setItem_log (tab_click 1 (projr (setupSidebarTabs two_tab_page))) =
     [(STORAGE_KEY, ''recent'')] \<and>
   localStorage (tab_click 1 (projr (setupSidebarTabs two_tab_page))) STORAGE_KEY =
     Some ''recent'' \<and>
   setItem_log (tab_clicks [1, 0] (projr (setupSidebarTabs two_tab_page))) =
     [(STORAGE_KEY, ''recent''), (STORAGE_KEY, ''tree'')] \<and>
   setItem_log (tab_click 2 backslash_tab_page) =
     [(STORAGE_KEY, [CHR ''a'', CHR 0x5C, CHR ''z''])]"
  using tab_click_writes_data_tab [of "projr (setupSidebarTabs two_tab_page)" "[1, 0]" 1]
    tab_click_writes_data_tab [of backslash_tab_page "[]" 2]
  by (simp add: two_tab_page_def backslash_tab_page_def setupSidebarTabs_def STORAGE_KEY_def
      switchTab_def querySelector_nav_tab_def css_plain_def to_js_string_def
      classList_remove_def classList_add_def tab_click_def setItem_def Let_def)

text \<open>
  On the page with a third tab button named \<^verbatim>\<open>tags\<close>, a click on that button after the setup
  writes the value \<^verbatim>\<open>tags\<close> under the preference key.
\<close>

theorem tab_click_other_name_counterexample:
  "setItem_log (tab_click 2 (projr (setupSidebarTabs three_tab_page))) =
     [(''memex-sidebar-tab'', ''tags'')]"
  by (simp add: three_tab_page_def setupSidebarTabs_def STORAGE_KEY_def switchTab_def
      querySelector_nav_tab_def css_plain_def to_js_string_def classList_remove_def
      classList_add_def tab_click_def setItem_def Let_def)

section \<open>Properties of the mobile search controller\<close>

lemma trim_empty_iff: "(trim v = []) = (\<forall>c \<in> set v. js_whitespace c)"
proof
  assume "trim v = []"
  then have a: "\<forall>c \<in> set (dropWhile js_whitespace v). js_whitespace c"
    by (simp add: trim_def dropWhile_eq_Nil_conv)
  have "dropWhile js_whitespace v = []"
  proof (cases "dropWhile js_whitespace v")
    case Nil
    then show ?thesis .
  next
    case (Cons c cs)
    then have "\<not> js_whitespace c" using hd_dropWhile [of js_whitespace v] by simp
    moreover have "js_whitespace c" using a Cons by simp
    ultimately show ?thesis by simp
  qed
  then show "\<forall>c \<in> set v. js_whitespace c" by (simp add: dropWhile_eq_Nil_conv)
next
  assume "\<forall>c \<in> set v. js_whitespace c"
  then have "dropWhile js_whitespace v = []" by (simp add: dropWhile_eq_Nil_conv)
  then show "trim v = []" unfolding trim_def by (simp only: rev.simps dropWhile.simps)
qed

lemma performMobileSearch_unavailable:
  assumes "searchInput p = Some v" and "searchResults p \<noteq> None"
    and "trim v = [] \<or> searchIndex p = None"
  shows "performMobileSearch p = Inr (p\<lparr>searchResults := Some []\<rparr>)"
  using assms by (auto simp: performMobileSearch_def set_innerHTML_def Let_def)

lemma performMobileSearch_loaded:
  assumes "searchInput p = Some v" and "searchResults p \<noteq> None"
    and "trim v \<noteq> []" and "searchIndex p = Some idx" and "searchMetadata p = Some md"
  shows "performMobileSearch p =
     Inr (p\<lparr>search_calls := search_calls p @ snd (run_search idx (trim v)),
            searchResults := Some (results_html (baseUrl p) md (fst (run_search idx (trim v))))\<rparr>)"
  using assms
  by (auto simp: performMobileSearch_def set_innerHTML_def results_html_def Let_def
      split: prod.splits)

lemma performMobileSearch_frame_Inr:
  assumes "performMobileSearch p = Inr p'"
  shows "searchIndex p' = searchIndex p \<and> searchMetadata p' = searchMetadata p"
  using assms
  by (auto simp: performMobileSearch_def set_innerHTML_def Let_def
      split: option.splits prod.splits if_splits)

lemma performMobileSearch_frame_Inl:
  assumes "performMobileSearch p = Inl (e, p')"
  shows "searchIndex p' = searchIndex p \<and> searchMetadata p' = searchMetadata p"
  using assms
  by (auto simp: performMobileSearch_def set_innerHTML_def Let_def
      split: option.splits prod.splits if_splits)

lemma search_timeout_frame:
  "searchIndex (search_timeout p) = searchIndex p \<and>
   searchMetadata (search_timeout p) = searchMetadata p"
proof (cases "performMobileSearch p")
  case (Inl ep)
  then obtain e q where "performMobileSearch p = Inl (e, q)" by (cases ep) auto
  then show ?thesis
    using performMobileSearch_frame_Inl [of p e q] by (simp add: search_timeout_def)
next
  case (Inr q)
  then show ?thesis
    using performMobileSearch_frame_Inr [of p q] by (simp add: search_timeout_def)
qed

lemma step_together:
  assumes "index_and_metadata_together p" and "load_complete lunr e"
  shows "index_and_metadata_together (step lunr e p)"
proof (cases e)
  case (FetchSettled outcome)
  show ?thesis
  proof (cases outcome)
    case FetchFailed
    with FetchSettled assms(1) show ?thesis by (simp add: fetch_settled_def)
  next
    case (FetchOk d)
    with FetchSettled assms(2) obtain md docs idx where
      "metadata d = Some md" "documents d = Some docs" "lunr docs = Inr idx"
      by (cases "documents d"; cases "lunr (the (documents d))") auto
    with FetchSettled FetchOk assms(1) show ?thesis
      by (simp add: index_and_metadata_together_def fetch_settled_def index_loaded_def)
  qed
next
  case SearchTimeout
  with assms(1) search_timeout_frame [of p] show ?thesis
    by (simp add: index_and_metadata_together_def)
next
  case (KeyDown key)
  with assms(1) show ?thesis
    by (simp add: index_and_metadata_together_def keydown_def menu_keydown_def
        search_keydown_def closeMenu_def closeSearch_def)
qed (use assms(1) in \<open>simp_all add: index_and_metadata_together_def toggleMenu_def
      openMenu_def closeMenu_def menu_resize_timeout_def openSearch_def closeSearch_def\<close>)

lemma run_together:
  "index_and_metadata_together p \<Longrightarrow> list_all (load_complete lunr) evs \<Longrightarrow>
   index_and_metadata_together (run lunr evs p)"
  by (induction evs arbitrary: p) (simp_all add: step_together)

lemma setup_together: "index_and_metadata_together (setupMobileSearch p)"
  by (simp add: index_and_metadata_together_def setupMobileSearch_def)

lemma escapeHtml_no_angle:
  "CHR ''<'' \<notin> set (escapeHtml t) \<and> CHR ''>'' \<notin> set (escapeHtml t)"
  by (induction t) (simp_all add: escapeHtml_def escape_char_def)

lemma join_contains: "t \<in> set ts \<Longrightarrow> \<exists>a b. join sep ts = a @ t @ b"
proof (induction sep ts rule: join.induct)
  case (1 sep)
  then show ?case by simp
next
  case (2 sep x)
  then have "join sep [x] = [] @ t @ []" by simp
  then show ?case by blast
next
  case (3 sep x y xs)
  show ?case
  proof (cases "t = x")
    case True
    then have "join sep (x # y # xs) = [] @ t @ (sep @ join sep (y # xs))" by simp
    then show ?thesis by blast
  next
    case False
    with 3 obtain a b where "join sep (y # xs) = a @ t @ b" by auto
    then have "join sep (x # y # xs) = (x @ sep @ a) @ t @ b" by simp
    then show ?thesis by blast
  qed
qed

text \<open>
  C1, as the code has it. The search controller starts with both variables unset. If every
  load that succeeds brings a payload with both fields and the builder returns an index for
  its documents, then whatever happens (any sequence of clicks, key presses, timer callbacks,
  input changes and outcomes of the request), the index and the metadata are both set or
  both unset. With or without that condition, while the index is unset a search returns
  normally, leaves the results container empty and changes nothing else.
\<close>

theorem index_and_metadata_invariant:
  "(list_all (load_complete lunr) evs \<longrightarrow>
      index_and_metadata_together (run lunr evs (setupMobileSearch p0))) \<and>
   (searchIndex (run lunr evs (setupMobileSearch p0)) = None \<longrightarrow>
    searchInput (run lunr evs (setupMobileSearch p0)) \<noteq> None \<longrightarrow>
    searchResults (run lunr evs (setupMobileSearch p0)) \<noteq> None \<longrightarrow>
      performMobileSearch (run lunr evs (setupMobileSearch p0)) =
        Inr ((run lunr evs (setupMobileSearch p0))\<lparr>searchResults := Some []\<rparr>))"
proof -
  let ?s = "run lunr evs (setupMobileSearch p0)"
  have inv: "index_and_metadata_together ?s" if "list_all (load_complete lunr) evs"
    using setup_together that by (rule run_together)
  have "performMobileSearch ?s = Inr (?s\<lparr>searchResults := Some []\<rparr>)"
    if a: "searchIndex ?s = None"
      and b: "searchInput ?s \<noteq> None" and c: "searchResults ?s \<noteq> None"
  proof -
    obtain v where "searchInput ?s = Some v" using b by auto
    then show ?thesis using a c performMobileSearch_unavailable by blast
  qed
  with inv show ?thesis by blast
qed

text \<open>The theorem on the example page: before the load a query for \<^verbatim>\<open>memex\<close> is a no-op, and
  after the load of the example payload both variables are set.\<close>

theorem index_and_metadata_invariant_witness:
  "index_and_metadata_together (run demo_lunr [InputChanged ''memex''] (setupMobileSearch demo_page)) \<and>
   performMobileSearch (run demo_lunr [InputChanged ''memex''] (setupMobileSearch demo_page)) =
     Inr ((run demo_lunr [InputChanged ''memex''] (setupMobileSearch demo_page))
            \<lparr>searchResults := Some []\<rparr>) \<and>
   index_and_metadata_together loaded_page \<and>
   searchMetadata loaded_page \<noteq> None"
  using index_and_metadata_invariant [of demo_lunr "[InputChanged ''memex'']" demo_page]
    index_and_metadata_invariant [of demo_lunr "[FetchSettled (FetchOk demo_data)]" demo_page]
  by (simp add: loaded_page_def setupMobileSearch_def demo_page_def fetch_settled_def
      search_input_ready_def search_ready_def index_loaded_def demo_data_def demo_lunr_def)

text \<open>
  On the example page: the load of a payload without \<^verbatim>\<open>documents\<close> leaves the metadata set and
  the index unset, and so does the load of the example payload on a page without the
  library; the load of a payload without \<^verbatim>\<open>metadata\<close> leaves the index set and the metadata
  unset.
\<close>

theorem metadata_without_index_counterexample:
  "searchMetadata (run demo_lunr [FetchSettled (FetchOk no_documents_data)]
      (setupMobileSearch demo_page)) \<noteq> None \<and>
   searchIndex (run demo_lunr [FetchSettled (FetchOk no_documents_data)]
      (setupMobileSearch demo_page)) = None \<and>
   searchMetadata (run missing_lunr [FetchSettled (FetchOk demo_data)]
      (setupMobileSearch demo_page)) \<noteq> None \<and>
   searchIndex (run missing_lunr [FetchSettled (FetchOk demo_data)]
      (setupMobileSearch demo_page)) = None \<and>
   searchIndex (run demo_lunr [FetchSettled (FetchOk no_metadata_data)]
      (setupMobileSearch demo_page)) \<noteq> None \<and>
   searchMetadata (run demo_lunr [FetchSettled (FetchOk no_metadata_data)]
      (setupMobileSearch demo_page)) = None"
  by (simp add: setupMobileSearch_def demo_page_def fetch_settled_def search_input_ready_def
      search_ready_def index_loaded_def no_documents_data_def no_metadata_data_def
      demo_data_def demo_lunr_def missing_lunr_def)

text \<open>
  C2, as the code has it. With the index unset, a query returns normally with the results
  container emptied, and the empty markup is not the message \<^verbatim>\<open>No results found\<close>. The
  message is what a query renders when the index is loaded and the search, after its
  wildcard retry, has no hit (or threw).
\<close>

theorem unavailable_clears_not_message:
  assumes "searchInput p = Some v" and "searchResults p \<noteq> None"
  shows "(searchIndex p = None \<longrightarrow>
            (\<exists>p'. performMobileSearch p = Inr p' \<and> searchResults p' = Some [] \<and>
                  searchResults p' \<noteq> Some no_results_html)) \<and>
         (\<forall>idx md. searchIndex p = Some idx \<and> searchMetadata p = Some md \<and> trim v \<noteq> [] \<and>
            fst (run_search idx (trim v)) = [] \<longrightarrow>
            (\<exists>p'. performMobileSearch p = Inr p' \<and> searchResults p' = Some no_results_html))"
proof (intro conjI allI impI)
  assume "searchIndex p = None"
  with assms have "performMobileSearch p = Inr (p\<lparr>searchResults := Some []\<rparr>)"
    by (simp add: performMobileSearch_unavailable)
  then show "\<exists>p'. performMobileSearch p = Inr p' \<and> searchResults p' = Some [] \<and>
                  searchResults p' \<noteq> Some no_results_html"
    by (simp add: no_results_html_def)
next
  fix idx md
  assume a: "searchIndex p = Some idx \<and> searchMetadata p = Some md \<and> trim v \<noteq> [] \<and>
            fst (run_search idx (trim v)) = []"
  with assms show "\<exists>p'. performMobileSearch p = Inr p' \<and> searchResults p' = Some no_results_html"
    using performMobileSearch_loaded [of p v idx md] by (simp add: results_html_def)
qed

text \<open>The theorem on the example page: before the load the query \<^verbatim>\<open>memex\<close> empties the
  container; after the load the query \<^verbatim>\<open>zzz\<close>, which has no hit, renders the message.\<close>

theorem unavailable_clears_not_message_witness:
  "(\<exists>p'. performMobileSearch (demo_page\<lparr>searchInput := Some ''memex''\<rparr>) = Inr p' \<and>
         searchResults p' = Some [] \<and> searchResults p' \<noteq> Some no_results_html) \<and>
   (\<exists>p'. performMobileSearch (loaded_page\<lparr>searchInput := Some ''zzz''\<rparr>) = Inr p' \<and>
         searchResults p' = Some no_results_html)"
  using unavailable_clears_not_message [of "demo_page\<lparr>searchInput := Some ''memex''\<rparr>" "''memex''"]
    unavailable_clears_not_message [of "loaded_page\<lparr>searchInput := Some ''zzz''\<rparr>" "''zzz''"]
  by (simp add: loaded_page_def setupMobileSearch_def demo_page_def fetch_settled_def
      search_input_ready_def search_ready_def index_loaded_def trim_def js_whitespace_def
      run_search_def demo_lunr_def demo_index_def demo_data_def demo_docs_def demo_metadata_def)

text \<open>
  On the example page the request for the index fails; the user then types \<^verbatim>\<open>memex\<close> and
  the search timer fires. The results container holds the empty markup, not the message.
\<close>

theorem unavailable_not_message_counterexample:
  "searchResults (run demo_lunr [FetchSettled FetchFailed, InputChanged ''memex'', SearchTimeout]
       (setupMobileSearch demo_page)) = Some [] \<and>
   searchResults (run demo_lunr [FetchSettled FetchFailed, InputChanged ''memex'', SearchTimeout]
       (setupMobileSearch demo_page)) \<noteq> Some no_results_html"
  by (simp add: setupMobileSearch_def demo_page_def fetch_settled_def search_input_ready_def
      search_ready_def search_timeout_def performMobileSearch_def trim_def js_whitespace_def
      set_innerHTML_def no_results_html_def)

text \<open>
  C4. If the text of the input is empty or consists of white space only, or if the index is
  not loaded (whatever the text), the search handler returns normally, the results
  container is empty afterwards, no call of the index's \<^verbatim>\<open>search\<close> has been made, and nothing
  else on the page has changed.
\<close>

theorem performMobileSearch_clears:
  assumes "searchInput p = Some v" and "searchResults p \<noteq> None"
    and "(\<forall>c \<in> set v. js_whitespace c) \<or> searchIndex p = None"
  shows "\<exists>p'. performMobileSearch p = Inr p' \<and> searchResults p' = Some [] \<and>
           search_calls p' = search_calls p \<and> p' = p\<lparr>searchResults := Some []\<rparr>"
proof -
  from assms(3) have "trim v = [] \<or> searchIndex p = None"
    by (simp add: trim_empty_iff)
  with assms(1,2) have "performMobileSearch p = Inr (p\<lparr>searchResults := Some []\<rparr>)"
    by (rule performMobileSearch_unavailable)
  then show ?thesis by simp
qed

text \<open>The theorem on the example page: the query \<^verbatim>\<open>memex\<close> before the load, and a query of
  two spaces after it.\<close>

theorem performMobileSearch_clears_witness:
  "(\<exists>p'. performMobileSearch
           (demo_page\<lparr>searchInput := Some ''memex'', searchResults := Some ''old''\<rparr>) = Inr p' \<and>
         searchResults p' = Some [] \<and> search_calls p' = []) \<and>
   (\<exists>p'. performMobileSearch
           (loaded_page\<lparr>searchInput := Some ''  '', searchResults := Some ''old''\<rparr>) = Inr p' \<and>
         searchResults p' = Some [] \<and> search_calls p' = [])"
  using performMobileSearch_clears
      [of "demo_page\<lparr>searchInput := Some ''memex'', searchResults := Some ''old''\<rparr>" "''memex''"]
    performMobileSearch_clears
      [of "loaded_page\<lparr>searchInput := Some ''  '', searchResults := Some ''old''\<rparr>" "''  ''"]
  by (simp add: loaded_page_def demo_page_def js_whitespace_def setupMobileSearch_def
      fetch_settled_def search_input_ready_def search_ready_def index_loaded_def
      demo_data_def demo_lunr_def)



text \<open>
  What the rendering of a non-empty list of hits does: the markup is the concatenation of
  the renderings of \<^verbatim>\<open>results.slice(0, 15)\<close>. A hit for which the metadata lookup gives
  \<^verbatim>\<open>undefined\<close> renders as the empty string. A hit whose identifier is a key of the metadata
  renders as a link to the base path and the document path whose text is the escaped title,
  followed by the tag line. The escaped title contains neither \<^verbatim>\<open><\<close> nor \<^verbatim>\<open>>\<close>.
\<close>

lemma render_first_fifteen:
  assumes "searchInput p = Some v" and "searchResults p \<noteq> None" and "trim v \<noteq> []"
    and "searchIndex p = Some idx" and "searchMetadata p = Some md"
    and "fst (run_search idx (trim v)) = rs" and "rs \<noteq> []"
  shows \<open>(\<exists>p'. performMobileSearch p = Inr p' \<and>
            searchResults p' =
              Some (concat (map (render_result (baseUrl p) md) (take 15 rs)))) \<and>
         (\<forall>r. js_lookup md (ref r) = Undefined \<longrightarrow> render_result (baseUrl p) md r = []) \<and>
         (\<forall>r. md (ref r) = None \<and> ref r \<notin> set object_prototype_names \<longrightarrow>
            render_result (baseUrl p) md r = []) \<and>
         (\<forall>r m. md (ref r) = Some m \<longrightarrow>
            render_result (baseUrl p) md r =
              ''<div class="search-result"><a href="'' @ baseUrl p @ ''/'' @ path m @ ''">'' @
              escapeHtml (title m) @ ''</a>'' @ tagsHtml m @ ''</div>'') \<and>
         (\<forall>t. CHR ''<'' \<notin> set (escapeHtml t) \<and> CHR ''>'' \<notin> set (escapeHtml t))\<close>
proof -
  have "performMobileSearch p =
     Inr (p\<lparr>search_calls := search_calls p @ snd (run_search idx (trim v)),
            searchResults := Some (results_html (baseUrl p) md rs)\<rparr>)"
    using assms performMobileSearch_loaded [of p v idx md] by simp
  moreover have "results_html (baseUrl p) md rs =
      concat (map (render_result (baseUrl p) md) (take 15 rs))"
    using assms(7) by (simp add: results_html_def)
  ultimately show ?thesis
    by (simp add: render_result_def js_lookup_def escapeHtml_no_angle)
qed

text \<open>
  C6 states that a hit whose identifier is missing from the metadata map is skipped. The
  code tests the value of the property read, and for an identifier that names an inherited
  property the read gives a value although the map has no entry. On the example page the
  index holds a document named \<^verbatim>\<open>constructor\<close> and the metadata has no entry at all; the query
  for the document's title has this one hit, and the results container then holds a link to
  the path \<^verbatim>\<open>undefined\<close> with an empty text instead of nothing.
\<close>

theorem inherited_name_not_skipped:
  \<open>metadata stale_data = Some Map.empty \<and>
   search_calls stale_page = [''Constructor''] \<and>
   render_result ''/kb'' Map.empty \<lparr>ref = ''constructor''\<rparr> =
     ''<div class="search-result"><a href="/kb/undefined"></a></div>'' \<and>
   searchResults stale_page =
     Some ''<div class="search-result"><a href="/kb/undefined"></a></div>''\<close>
  by (simp add: stale_page_def stale_data_def setupMobileSearch_def demo_page_def
      fetch_settled_def search_input_ready_def search_ready_def index_loaded_def
      search_timeout_def performMobileSearch_def set_innerHTML_def trim_def
      js_whitespace_def run_search_def demo_lunr_def demo_index_def render_result_def
      js_lookup_def object_prototype_names_def escapeHtml_def Let_def)

text \<open>
  C10. Every tag of a metadata entry occurs in the tag line as it is, and the tag line
  follows the escaped title in the rendering of a hit. For the example entry, whose title
  and first tag both contain markup characters, the rendering holds the tag \<^verbatim>\<open><b>x</b>\<close>
  unescaped, while the \<^verbatim>\<open><1> &\<close> of the title has become character references.
\<close>

theorem tags_inserted_verbatim:
  \<open>(\<forall>m ts t. tags m = Some ts \<and> t \<in> set ts \<longrightarrow> (\<exists>a b. tagsHtml m = a @ t @ b)) \<and>
   (\<forall>base md r m. md (ref r) = Some m \<longrightarrow>
      (\<exists>a b. render_result base md r = a @ escapeHtml (title m) @ ''</a>'' @ tagsHtml m @ b)) \<and>
   render_result ''/kb'' [''a'' \<mapsto> demo_meta] \<lparr>ref = ''a''\<rparr> =
     ''<div class="search-result"><a href="/kb/a.html">Memex &lt;1&gt; &amp; co</a>'' @
     ''<div class="search-tags"><b>x</b>, y</div></div>''\<close>
proof (intro conjI allI impI)
  fix m :: meta and ts :: "string list" and t :: string
  assume a: "tags m = Some ts \<and> t \<in> set ts"
  then obtain a b where "join '', '' ts = a @ t @ b" using join_contains by blast
  moreover from a have "ts \<noteq> []" by auto
  ultimately have \<open>tagsHtml m = (''<div class="search-tags">'' @ a) @ t @ (b @ ''</div>'')\<close>
    using a by (simp add: tagsHtml_def)
  then show "\<exists>a b. tagsHtml m = a @ t @ b" by blast
next
  fix base :: string and md :: "string \<rightharpoonup> meta" and r :: search_result and m :: meta
  assume "md (ref r) = Some m"
  then have \<open>render_result base md r =
      (''<div class="search-result"><a href="'' @ base @ ''/'' @ path m @ ''">'') @
      escapeHtml (title m) @ ''</a>'' @ tagsHtml m @ ''</div>''\<close>
    by (simp add: render_result_def js_lookup_def)
  then show "\<exists>a b. render_result base md r = a @ escapeHtml (title m) @ ''</a>'' @ tagsHtml m @ b"
    by blast
next
  show \<open>render_result ''/kb'' [''a'' \<mapsto> demo_meta] \<lparr>ref = ''a''\<rparr> =
     ''<div class="search-result"><a href="/kb/a.html">Memex &lt;1&gt; &amp; co</a>'' @
     ''<div class="search-tags"><b>x</b>, y</div></div>''\<close>
    by (simp add: render_result_def js_lookup_def demo_meta_def tagsHtml_def escapeHtml_def
        escape_char_def)
qed

text \<open>The theorem on the example entry and its first tag.\<close>

theorem tags_inserted_verbatim_witness:
  "\<exists>a b. tagsHtml demo_meta = a @ ''<b>x</b>'' @ b"
proof -
  have "tags demo_meta = Some [''<b>x</b>'', ''y''] \<and> ''<b>x</b>'' \<in> set [''<b>x</b>'', ''y'']"
    by (simp add: demo_meta_def)
  then show ?thesis using tags_inserted_verbatim by blast
qed

section \<open>Properties of the mobile menu\<close>




end
